theory Spec2Isabelle
  imports Main "HOL-Library.Word"
begin

section \<open>Data of the osc module\<close>

text \<open>
  The module \<^verbatim>\<open>osc/__init__.py\<close> is a thin layer over the python-osc library: a
  process-wide registry of handler bindings, a decorator that sends a function's result
  as an OSC packet, a decorator that registers a function as a handler, and a function
  that starts one server per registered endpoint.

  \<^verbatim>\<open>Message = Optional[int | float | bytes | str | bool | tuple | list]\<close>: a value of
  the union, or Python's \<^verbatim>\<open>None\<close>. A float is carried as its binary64 pattern; the
  module never computes with it.
\<close>

datatype osc_value =
    OInt int
  | OFloat "64 word"
  | OBytes "8 word list"
  | OStr string
  | OBool bool
  | OTuple "osc_value list"
  | OList "osc_value list"

type_synonym message = "osc_value option"

text \<open>What a sender function returns, \<^verbatim>\<open>tuple[str, Message]\<close>, and a \<^verbatim>\<open>(host, port)\<close> key.\<close>

type_synonym packet = "string \<times> message"

type_synonym endpoint = "string \<times> int"

datatype error = ValueError string | OSError string | OverflowError string

text \<open>
  Function objects. The registry and the dispatcher hold references to function objects,
  and the closure \<^verbatim>\<open>wrapper\<close> that \<^verbatim>\<open>receive\<close>'s decorator returns is a new object
  that holds the decorated one. \<open>UserFn u\<close> is a callable the user wrote, \<open>u\<close> its
  identity.
\<close>

datatype 'u callable = UserFn 'u | ReceiveWrapper "'u callable"

subsection \<open>Python dictionaries\<close>

text \<open>
  A \<^verbatim>\<open>dict\<close> keeps its keys in insertion order and holds each key once: an association
  list. \<open>dict_setitem\<close> is \<^verbatim>\<open>d[k] = v\<close>: an existing key keeps its place and gets the
  new value, a new key goes last. \<open>dict_update\<close> is \<^verbatim>\<open>d.update(u)\<close> for a dict
  \<open>u\<close>: \<^verbatim>\<open>d[k] = v\<close> for every item of \<open>u\<close> in order.
\<close>

type_synonym ('k, 'v) dict = "('k \<times> 'v) list"

fun dict_setitem :: "'k \<Rightarrow> 'v \<Rightarrow> ('k, 'v) dict \<Rightarrow> ('k, 'v) dict" where
  "dict_setitem k v [] = [(k, v)]"
| "dict_setitem k v ((k', v') # d) =
     (if k' = k then (k', v) # d else (k', v') # dict_setitem k v d)"

fun dict_update :: "('k, 'v) dict \<Rightarrow> ('k, 'v) dict \<Rightarrow> ('k, 'v) dict" where
  "dict_update d [] = d"
| "dict_update d ((k, v) # u) = dict_update (dict_setitem k v d) u"

definition dict_get :: "('k, 'v) dict \<Rightarrow> 'k \<Rightarrow> 'v option" where
  "dict_get d k = map_of d k"

definition dict_keys :: "('k, 'v) dict \<Rightarrow> 'k list" where
  "dict_keys d = map fst d"

text \<open>
  \<^verbatim>\<open>__Servers = dict[tuple[str, int], dict[str, Callable]]\<close>: per endpoint, the
  address-to-callback bindings.
\<close>

type_synonym 'u Servers = "(endpoint, (string, 'u callable) dict) dict"

subsection \<open>What python-osc and the interpreter hold\<close>

text \<open>
  A \<^verbatim>\<open>Dispatcher\<close> is the sequence of its \<^verbatim>\<open>map(address, handler)\<close> calls. A
  \<^verbatim>\<open>ThreadingOSCUDPServer((host, port), d)\<close> is the address it was constructed with
  and its dispatcher. A started thread is the server its target came to serve and the
  daemon flag.
\<close>

type_synonym 'u dispatcher = "(string \<times> 'u callable) list"

definition Dispatcher :: "'u dispatcher" where
  "Dispatcher = []"

definition dispatcher_map :: "'u dispatcher \<Rightarrow> string \<Rightarrow> 'u callable \<Rightarrow> 'u dispatcher" where
  "dispatcher_map d address handler = d @ [(address, handler)]"

record 'u server =
  server_address :: endpoint
  dispatcher :: "'u dispatcher"

record 'u thread =
  target :: "'u server"
  daemon :: bool

text \<open>One call of \<^verbatim>\<open>send_message\<close>: where to, what, and the exception it raised if any.\<close>

record send_attempt =
  dest :: endpoint
  payload :: packet
  raised :: "error option"

text \<open>
  The state the module's functions read and write: \<open>store\<close> is the dictionary that is
  the default value of \<^verbatim>\<open>__servers\<close>' keyword parameter, created once when the module
  is loaded; \<open>debug_log\<close> the records of \<^verbatim>\<open>logging.debug\<close>; \<open>sent\<close> the calls of
  \<^verbatim>\<open>send_message\<close>; \<open>created\<close> and \<open>threads\<close> the servers constructed and the
  threads started.
\<close>

record 'u world =
  store :: "'u Servers"
  debug_log :: "(packet \<times> endpoint) list"
  sent :: "send_attempt list"
  created :: "'u server list"
  threads :: "'u thread list"

definition init_world :: "'u world" where
  "init_world = \<lparr>store = [], debug_log = [], sent = [], created = [], threads = []\<rparr>"

section \<open>The registry accessor\<close>

text \<open>
  \<^verbatim>\<open>__servers(update=None, /, *, __servers={})\<close>: updates the stored dictionary when
  an update is passed, and returns the stored dictionary (the object itself).
\<close>

definition servers :: "'u Servers option \<Rightarrow> 'u world \<Rightarrow> 'u Servers \<times> 'u world" where
  "servers update w =
     (case update of
        None \<Rightarrow> (store w, w)
      | Some u \<Rightarrow>
          (let w' = w\<lparr>store := dict_update (store w) u\<rparr> in (store w', w')))"

section \<open>receive\<close>

text \<open>
  \<^verbatim>\<open>wrapper(addr, message=None)\<close> calls \<^verbatim>\<open>f(addr, message)\<close> and returns what it
  returns. A call passes the address and, optionally, a message; \<open>beh\<close> gives what each
  user function does when called so. A result type with an error summand covers a
  function that raises.
\<close>

fun call :: "('u \<Rightarrow> string \<Rightarrow> message option \<Rightarrow> 'r) \<Rightarrow> 'u callable \<Rightarrow> string \<Rightarrow> message option \<Rightarrow> 'r" where
  "call beh (UserFn u) addr marg = beh u addr marg"
| "call beh (ReceiveWrapper f) addr marg =
     call beh f addr (Some (case marg of None \<Rightarrow> None | Some message \<Rightarrow> message))"

text \<open>Consolidate addresses into a list.\<close>

definition consolidate :: "string option \<Rightarrow> string list option \<Rightarrow> string list" where
  "consolidate address addresses =
     (case address of None \<Rightarrow> [] | Some a \<Rightarrow> [a]) @
     (case addresses of None \<Rightarrow> [] | Some as \<Rightarrow> as)"

text \<open>
  The loop \<^verbatim>\<open>for _addr in _addrs: __servers({(host, port): {_addr: f}})\<close>.
\<close>

fun register_all :: "endpoint \<Rightarrow> 'u callable \<Rightarrow> string list \<Rightarrow> 'u world \<Rightarrow> 'u world" where
  "register_all ep f [] w = w"
| "register_all ep f (a # as) w =
     register_all ep f as (snd (servers (Some [(ep, [(a, f)])]) w))"

definition decorator ::
  "string \<Rightarrow> int \<Rightarrow> string option \<Rightarrow> string list option \<Rightarrow> 'u callable \<Rightarrow> 'u world
    \<Rightarrow> 'u callable \<times> 'u world" where
  "decorator host port address addresses f w =
     (ReceiveWrapper f, register_all (host, port) f (consolidate address addresses) w)"

definition receive ::
  "string \<Rightarrow> int \<Rightarrow> string option \<Rightarrow> string list option
    \<Rightarrow> error + ('u callable \<Rightarrow> 'u world \<Rightarrow> 'u callable \<times> 'u world)" where
  "receive host port address addresses =
     (if address = None \<and> addresses = None then Inl (ValueError ''Must specify an address.'')
      else Inr (decorator host port address addresses))"

section \<open>send\<close>

text \<open>
  \<^verbatim>\<open>send(host, port)(f)\<close> is the closure \<^verbatim>\<open>wrapper\<close>. The decorated function returns
  a packet, as the docstring requires. The wrapper logs the packet, constructs
  \<^verbatim>\<open>SimpleUDPClient(host, port)\<close> and calls its \<^verbatim>\<open>send_message(*packet)\<close>. Either of
  the two can raise, and the wrapper has no handler: \<open>client ep\<close> is \<open>Some e\<close> when
  the constructor raises \<open>e\<close> (a host that does not resolve), and then
  \<^verbatim>\<open>send_message\<close> is not called; \<open>net ep packet\<close> is \<open>Some e\<close> when
  \<^verbatim>\<open>send_message\<close> raises \<open>e\<close>, and then no datagram has left. \<open>None\<close> is a call
  that returns.
\<close>

definition send ::
  "string \<Rightarrow> int \<Rightarrow> ('a \<Rightarrow> packet) \<Rightarrow> (endpoint \<Rightarrow> error option)
    \<Rightarrow> (endpoint \<Rightarrow> packet \<Rightarrow> error option) \<Rightarrow> 'a \<Rightarrow> 'u world \<Rightarrow> (error + packet) \<times> 'u world" where
  "send host port f client net args w =
     (let packet = f args;
          w1 = w\<lparr>debug_log := debug_log w @ [(packet, (host, port))]\<rparr>
      in case client (host, port) of
           Some e \<Rightarrow> (Inl e, w1)
         | None \<Rightarrow>
             (let r = net (host, port) packet;
                  w2 = w1\<lparr>sent := sent w1
                          @ [\<lparr>dest = (host, port), payload = packet, raised = r\<rparr>]\<rparr>
              in case r of None \<Rightarrow> (Inr packet, w2) | Some e \<Rightarrow> (Inl e, w2)))"

section \<open>start_servers and wait\<close>

text \<open>The inner loop: \<^verbatim>\<open>for address, callback in binds.items(): d.map(address, callback)\<close>.\<close>

fun map_binds :: "(string, 'u callable) dict \<Rightarrow> 'u dispatcher \<Rightarrow> 'u dispatcher" where
  "map_binds [] d = d"
| "map_binds ((address, callback) # binds) d = map_binds binds (dispatcher_map d address callback)"

text \<open>
  The constructor of \<^verbatim>\<open>ThreadingOSCUDPServer\<close> binds the socket, and raises when that
  fails: \<^verbatim>\<open>OverflowError\<close> for a port outside 0..65535, and whatever the operating
  system answers otherwise (\<open>bind ep\<close> is \<open>Some e\<close> when it refuses, as for an address
  in use or a host that does not resolve).
\<close>

definition server_bind :: "(endpoint \<Rightarrow> error option) \<Rightarrow> endpoint \<Rightarrow> error option" where
  "server_bind bind ep =
     (if snd ep < 0 \<or> 65535 < snd ep then Some (OverflowError ''bind(): port must be 0-65535.'')
      else bind ep)"

definition ThreadingOSCUDPServer ::
  "(endpoint \<Rightarrow> error option) \<Rightarrow> endpoint \<Rightarrow> 'u dispatcher \<Rightarrow> error + 'u server" where
  "ThreadingOSCUDPServer bind ep d =
     (case server_bind bind ep of
        Some e \<Rightarrow> Inl e
      | None \<Rightarrow> Inr \<lparr>server_address = ep, dispatcher = d\<rparr>)"

text \<open>
  The outer loop over \<^verbatim>\<open>__servers().items()\<close>: a dispatcher, a server, and a daemon
  thread started for it. The loop has no exception handler, so the first constructor that
  raises ends it, with the servers constructed so far. \<open>new\<close> is the sequence of values
  the loop has assigned to the variable \<^verbatim>\<open>server\<close>; one thread has been started after
  each assignment. \<^verbatim>\<open>Dispatcher()\<close>, \<^verbatim>\<open>d.map\<close> and \<^verbatim>\<open>Thread.start\<close> are taken to
  return.
\<close>

fun serve_all ::
  "(endpoint \<Rightarrow> error option) \<Rightarrow> 'u Servers \<Rightarrow> 'u server list \<Rightarrow> error option \<times> 'u server list" where
  "serve_all bind [] new = (None, new)"
| "serve_all bind (((host, port), binds) # rest) new =
     (let d = map_binds binds Dispatcher
      in case ThreadingOSCUDPServer bind (host, port) d of
           Inl e \<Rightarrow> (Some e, new)
         | Inr server \<Rightarrow> serve_all bind rest (new @ [server]))"

text \<open>
  The target of every thread is \<^verbatim>\<open>lambda: server.serve_forever()\<close>, a closure over
  the loop variable: the thread serves the value the variable has when the thread comes
  to run the target. \<open>sched k\<close> is the number of later assignments the loop makes before
  the \<open>k\<close>-th thread reads the variable; the variable keeps its last value when the loop
  is over.
\<close>

definition run_threads :: "(nat \<Rightarrow> nat) \<Rightarrow> 'u server list \<Rightarrow> 'u thread list" where
  "run_threads sched new =
     map (\<lambda>k. \<lparr>target = new ! min (k + sched k) (length new - 1), daemon = True\<rparr>)
       [0..<length new]"

text \<open>
  \<^verbatim>\<open>wait()\<close>: sleep in a loop until a \<^verbatim>\<open>KeyboardInterrupt\<close> arrives, then return.
  \<open>env i\<close> is how the \<open>i\<close>-th call of \<^verbatim>\<open>time.sleep\<close> ends. The loop has no exit of
  its own, so not returning is the value \<open>None\<close>. Python's \<^verbatim>\<open>wait\<close> returns nothing;
  the model returns the number of sleeps that ran to their end, for the theorems to speak
  of when it returned.
\<close>

datatype sleep_outcome = Slept | KeyboardInterrupt

partial_function (option) wait_from :: "(nat \<Rightarrow> sleep_outcome) \<Rightarrow> nat \<Rightarrow> nat option" where
  "wait_from env i =
     (case env i of KeyboardInterrupt \<Rightarrow> Some i | Slept \<Rightarrow> wait_from env (Suc i))"

definition wait :: "(nat \<Rightarrow> sleep_outcome) \<Rightarrow> nat option" where
  "wait env = wait_from env 0"

text \<open>
  \<^verbatim>\<open>start_servers(blocking)\<close>. \<open>None\<close>: the call never returns. \<open>Some (Inl e, w')\<close>:
  the exception \<open>e\<close> left the call. \<open>Some (Inr (), w')\<close>: the call returned. The servers
  constructed and the threads started before an exception stay.
\<close>

definition start_servers ::
  "bool \<Rightarrow> (nat \<Rightarrow> sleep_outcome) \<Rightarrow> (endpoint \<Rightarrow> error option) \<Rightarrow> (nat \<Rightarrow> nat) \<Rightarrow> 'u world
    \<Rightarrow> ((error + unit) \<times> 'u world) option" where
  "start_servers blocking env bind sched w =
     (case servers None w of
        (reg, w1) \<Rightarrow>
          (case serve_all bind reg [] of
             (r, new) \<Rightarrow>
               (let w2 = w1\<lparr>created := created w1 @ new,
                            threads := threads w1 @ run_threads sched new\<rparr>
                in case r of
                     Some e \<Rightarrow> Some (Inl e, w2)
                   | None \<Rightarrow>
                       if blocking
                       then (case wait env of None \<Rightarrow> None | Some _ \<Rightarrow> Some (Inr (), w2))
                       else Some (Inr (), w2))))"

section \<open>Example values\<close>

text \<open>
  A registry with two endpoints and one whose second port no socket can have; a keyboard
  interrupt during the \<open>n\<close>-th sleep and none at all; an operating system that accepts every bind; threads
  that read the loop variable at once, and threads that read it one assignment late; the
  sender of \<^verbatim>\<open>test/test.py\<close>; a host that resolves and one that does not; a network
  that takes every datagram and one that refuses every datagram.
\<close>

definition two_endpoints :: "nat world" where
  "two_endpoints = init_world\<lparr>store :=
     [((''127.0.0.1'', 19994), [(''/some/addr'', UserFn 0)]),
      ((''0.0.0.0'', 9000), [(''/x'', UserFn 1), (''/y'', UserFn 2)])]\<rparr>"

definition bad_port :: "nat world" where
  "bad_port = init_world\<lparr>store :=
     [((''127.0.0.1'', 19994), [(''/a'', UserFn 0)]),
      ((''127.0.0.1'', 70000), [(''/b'', UserFn 1)]),
      ((''127.0.0.1'', 19995), [(''/c'', UserFn 2)])]\<rparr>"

definition interrupt_at :: "nat \<Rightarrow> nat \<Rightarrow> sleep_outcome" where
  "interrupt_at n i = (if i = n then KeyboardInterrupt else Slept)"


definition accept :: "endpoint \<Rightarrow> error option" where
  "accept ep = None"

definition prompt :: "nat \<Rightarrow> nat" where
  "prompt k = 0"

definition late :: "nat \<Rightarrow> nat" where
  "late k = 1"

definition send_something :: "string \<Rightarrow> packet" where
  "send_something message = (''/some/addr'', Some (OStr message))"

definition resolves :: "endpoint \<Rightarrow> error option" where
  "resolves ep = None"

definition unresolvable :: "endpoint \<Rightarrow> error option" where
  "unresolvable ep = Some (OSError ''Name or service not known'')"

definition reachable :: "endpoint \<Rightarrow> packet \<Rightarrow> error option" where
  "reachable ep p = None"

definition unreachable :: "endpoint \<Rightarrow> packet \<Rightarrow> error option" where
  "unreachable ep p = Some (OSError ''Network is unreachable'')"

section \<open>Facts about the dictionary operations\<close>

lemma map_of_dict_setitem: "map_of (dict_setitem k v d) = (map_of d)(k \<mapsto> v)"
  by (induction d) (auto simp: fun_eq_iff)

lemma dict_get_setitem:
  "dict_get (dict_setitem k v d) k' = (if k' = k then Some v else dict_get d k')"
  by (simp add: dict_get_def map_of_dict_setitem)

lemma keys_dict_setitem:
  "dict_keys (dict_setitem k v d)
     = (if k \<in> set (dict_keys d) then dict_keys d else dict_keys d @ [k])"
  by (induction d) (force simp: dict_keys_def)+

lemma distinct_dict_setitem:
  "distinct (dict_keys d) \<Longrightarrow> distinct (dict_keys (dict_setitem k v d))"
  by (simp add: keys_dict_setitem)

lemma count_distinct_keys:
  "distinct (map fst reg) \<Longrightarrow>
   length (filter (\<lambda>item. fst item = k) reg) = (if k \<in> set (map fst reg) then 1 else 0)"
  by (induction reg) (auto simp: image_iff)

section \<open>Facts about the registry and registration\<close>

lemma store_servers:
  "store (snd (servers update w))
     = (case update of None \<Rightarrow> store w | Some u \<Rightarrow> dict_update (store w) u)"
  by (simp add: servers_def Let_def split: option.splits)

lemma register_all_get:
  "as \<noteq> [] \<Longrightarrow> dict_get (store (register_all ep f as w)) ep = Some [(last as, f)]"
proof (induction as arbitrary: w)
  case Nil
  then show ?case by simp
next
  case (Cons a as)
  show ?case
  proof (cases "as = []")
    case True
    then show ?thesis by (simp add: store_servers dict_get_setitem)
  next
    case False
    with Cons.IH show ?thesis by simp
  qed
qed

lemma register_all_get_other:
  "ep' \<noteq> ep \<Longrightarrow> dict_get (store (register_all ep f as w)) ep' = dict_get (store w) ep'"
  by (induction as arbitrary: w) (simp_all add: store_servers dict_get_setitem)

lemma register_all_distinct:
  "distinct (dict_keys (store w)) \<Longrightarrow> distinct (dict_keys (store (register_all ep f as w)))"
  by (induction as arbitrary: w) (simp_all add: store_servers distinct_dict_setitem)

lemma register_all_frame:
  "debug_log (register_all ep f as w) = debug_log w \<and> sent (register_all ep f as w) = sent w
   \<and> created (register_all ep f as w) = created w \<and> threads (register_all ep f as w) = threads w"
  by (induction as arbitrary: w) (simp_all add: servers_def)

lemma callable_neq_wrapper: "ReceiveWrapper f \<noteq> f"
  by (induction f) simp_all

section \<open>Facts about wait\<close>

text \<open>The loop returns at the first interrupted sleep from \<open>i\<close> on, if there is one.\<close>

lemma wait_from_first:
  "env (i + n) = KeyboardInterrupt \<Longrightarrow> (\<forall>j<n. env (i + j) = Slept) \<Longrightarrow> wait_from env i = Some (i + n)"
proof (induction n arbitrary: i)
  case 0
  then show ?case by (subst wait_from.simps) simp
next
  case (Suc n)
  from Suc.prems(1) have a: "env (Suc i + n) = KeyboardInterrupt" by simp
  have b: "\<forall>j<n. env (Suc i + j) = Slept"
  proof (intro allI impI)
    fix j assume "j < n"
    then have "Suc j < Suc n" by simp
    with Suc.prems(2) have "env (i + Suc j) = Slept" by blast
    then show "env (Suc i + j) = Slept" by simp
  qed
  have c: "env i = Slept" using Suc.prems(2) [rule_format, of 0] by simp
  have "wait_from env (Suc i) = Some (Suc i + n)" using a b by (rule Suc.IH)
  with c show ?case by (subst wait_from.simps) simp
qed

lemma wait_from_Some:
  assumes "wait_from env i = Some k"
  shows "i \<le> k \<and> env k = KeyboardInterrupt \<and> (\<forall>j. i \<le> j \<and> j < k \<longrightarrow> env j = Slept)"
proof (rule wait_from.raw_induct
    [where P = "\<lambda>env i k. i \<le> k \<and> env k = KeyboardInterrupt \<and> (\<forall>j. i \<le> j \<and> j < k \<longrightarrow> env j = Slept)",
      OF _ assms])
  fix wf :: "(nat \<Rightarrow> sleep_outcome) \<Rightarrow> nat \<Rightarrow> nat option" and env i k
  assume IH: "\<And>env i k. wf env i = Some k \<Longrightarrow>
      i \<le> k \<and> env k = KeyboardInterrupt \<and> (\<forall>j. i \<le> j \<and> j < k \<longrightarrow> env j = Slept)"
    and step: "(case env i of KeyboardInterrupt \<Rightarrow> Some i | Slept \<Rightarrow> wf env (Suc i)) = Some k"
  show "i \<le> k \<and> env k = KeyboardInterrupt \<and> (\<forall>j. i \<le> j \<and> j < k \<longrightarrow> env j = Slept)"
  proof (cases "env i")
    case Slept
    with step have "wf env (Suc i) = Some k" by simp
    then have r: "Suc i \<le> k" "env k = KeyboardInterrupt" "\<forall>j. Suc i \<le> j \<and> j < k \<longrightarrow> env j = Slept"
      using IH by blast+
    have "env j = Slept" if "i \<le> j" "j < k" for j
    proof (cases "j = i")
      case True
      with Slept show ?thesis by simp
    next
      case False
      with that have "Suc i \<le> j \<and> j < k" by simp
      with r(3) show ?thesis by blast
    qed
    with r(1,2) show ?thesis by simp
  next
    case KeyboardInterrupt
    with step show ?thesis by auto
  qed
qed

lemma wait_Some_iff:
  "(wait env = Some n) = (env n = KeyboardInterrupt \<and> (\<forall>j<n. env j = Slept))"
proof
  assume "wait env = Some n"
  then show "env n = KeyboardInterrupt \<and> (\<forall>j<n. env j = Slept)"
    using wait_from_Some [of env 0 n] by (simp add: wait_def)
next
  assume "env n = KeyboardInterrupt \<and> (\<forall>j<n. env j = Slept)"
  then show "wait env = Some n"
    using wait_from_first [of env 0 n] by (simp add: wait_def)
qed

lemma wait_returns_iff: "(\<exists>n. wait env = Some n) = (\<exists>i. env i = KeyboardInterrupt)"
proof
  assume "\<exists>n. wait env = Some n"
  then show "\<exists>i. env i = KeyboardInterrupt" by (auto simp: wait_Some_iff)
next
  assume "\<exists>i. env i = KeyboardInterrupt"
  then obtain i where i: "env i = KeyboardInterrupt" by blast
  define n where "n = (LEAST i. env i = KeyboardInterrupt)"
  have "env n = KeyboardInterrupt" unfolding n_def using i by (rule LeastI)
  moreover have "\<forall>j<n. env j = Slept"
  proof (intro allI impI)
    fix j assume "j < n"
    then have "env j \<noteq> KeyboardInterrupt" unfolding n_def by (rule not_less_Least)
    then show "env j = Slept" by (cases "env j") simp_all
  qed
  ultimately have "wait env = Some n" by (simp add: wait_Some_iff)
  then show "\<exists>n. wait env = Some n" by blast
qed

section \<open>Facts about the server loop\<close>

lemma map_binds_append: "map_binds binds d = d @ binds"
  by (induction binds d rule: map_binds.induct) (simp_all add: dispatcher_map_def)

lemma serve_all_snd:
  "snd (serve_all bind reg new)
     = new @ map (\<lambda>item. \<lparr>server_address = fst item, dispatcher = snd item\<rparr>)
               (takeWhile (\<lambda>item. server_bind bind (fst item) = None) reg)"
  by (induction bind reg new rule: serve_all.induct)
    (auto simp: map_binds_append Dispatcher_def ThreadingOSCUDPServer_def Let_def
      split: option.splits)

lemma serve_all_fst:
  "fst (serve_all bind reg new)
     = (case find (\<lambda>item. server_bind bind (fst item) \<noteq> None) reg of
          None \<Rightarrow> None | Some item \<Rightarrow> server_bind bind (fst item))"
  by (induction bind reg new rule: serve_all.induct)
    (auto simp: ThreadingOSCUDPServer_def Let_def split: option.splits)

lemma serve_all_returns_iff:
  "(fst (serve_all bind reg new) = None) = (\<forall>item \<in> set reg. server_bind bind (fst item) = None)"
  by (induction bind reg new rule: serve_all.induct)
    (auto simp: ThreadingOSCUDPServer_def Let_def split: option.splits)

lemma serve_all_all:
  assumes "\<forall>item \<in> set reg. server_bind bind (fst item) = None"
  shows "serve_all bind reg new
     = (None, new @ map (\<lambda>item. \<lparr>server_address = fst item, dispatcher = snd item\<rparr>) reg)"
proof -
  have t: "takeWhile (\<lambda>item. server_bind bind (fst item) = None) reg = reg"
    using assms by (simp add: takeWhile_eq_all_conv)
  have "snd (serve_all bind reg new)
      = new @ map (\<lambda>item. \<lparr>server_address = fst item, dispatcher = snd item\<rparr>) reg"
    by (simp only: serve_all_snd t)
  moreover have "fst (serve_all bind reg new) = None"
    using assms by (simp add: serve_all_returns_iff)
  ultimately show ?thesis by (simp add: prod_eq_iff)
qed

lemma length_run_threads: "length (run_threads sched new) = length new"
  by (simp add: run_threads_def)

lemma target_run_threads:
  "k < length new \<Longrightarrow>
   target (run_threads sched new ! k) = new ! min (k + sched k) (length new - 1)"
  by (simp add: run_threads_def)

lemma daemon_run_threads: "t \<in> set (run_threads sched new) \<Longrightarrow> daemon t"
  by (auto simp: run_threads_def)

lemma target_in_new: "t \<in> set (run_threads sched new) \<Longrightarrow> target t \<in> set new"
  by (auto simp: run_threads_def)

lemma run_threads_prompt:
  assumes "\<forall>k. sched k = 0"
  shows "map target (run_threads sched new) = new"
proof (rule nth_equalityI)
  show "length (map target (run_threads sched new)) = length new"
    by (simp add: length_run_threads)
next
  fix k assume "k < length (map target (run_threads sched new))"
  then have k: "k < length new" by (simp add: length_run_threads)
  then have "min k (length new - 1) = k" by simp
  with k assms show "map target (run_threads sched new) ! k = new ! k"
    by (simp add: length_run_threads target_run_threads)
qed

lemma start_servers_eq:
  "start_servers blocking env bind sched w =
     (let new = snd (serve_all bind (store w) []);
          w2 = w\<lparr>created := created w @ new, threads := threads w @ run_threads sched new\<rparr>
      in case fst (serve_all bind (store w) []) of
           Some e \<Rightarrow> Some (Inl e, w2)
         | None \<Rightarrow>
             if blocking \<and> (\<forall>i. env i = Slept) then None else Some (Inr (), w2))"
proof -
  have n: "(wait env = None) = (\<forall>i. env i = Slept)"
  proof
    assume "wait env = None"
    then have "\<not> (\<exists>i. env i = KeyboardInterrupt)" using wait_returns_iff [of env] by simp
    then show "\<forall>i. env i = Slept" by (metis sleep_outcome.exhaust)
  next
    assume "\<forall>i. env i = Slept"
    then have "\<not> (\<exists>n. wait env = Some n)" by (simp add: wait_returns_iff)
    then show "wait env = None" by (cases "wait env") auto
  qed
  show ?thesis
  proof (cases "wait env")
    case None
    with n show ?thesis
      by (auto simp: start_servers_def servers_def Let_def split: prod.splits option.splits)
  next
    case (Some k)
    with n have "\<not> (\<forall>i. env i = Slept)" by simp
    with Some show ?thesis
      by (auto simp: start_servers_def servers_def Let_def split: prod.splits option.splits)
  qed
qed

lemma start_servers_Some:
  assumes "start_servers blocking env bind sched w = Some (r, w')"
  shows "w' = w\<lparr>created := created w
                  @ map (\<lambda>item. \<lparr>server_address = fst item, dispatcher = snd item\<rparr>)
                      (takeWhile (\<lambda>item. server_bind bind (fst item) = None) (store w)),
                threads := threads w
                  @ run_threads sched
                      (map (\<lambda>item. \<lparr>server_address = fst item, dispatcher = snd item\<rparr>)
                        (takeWhile (\<lambda>item. server_bind bind (fst item) = None) (store w)))\<rparr>"
    and "(r = Inr ()) = (\<forall>item \<in> set (store w). server_bind bind (fst item) = None)"
proof -
  have s: "snd (serve_all bind (store w) [])
      = map (\<lambda>item. \<lparr>server_address = fst item, dispatcher = snd item\<rparr>)
          (takeWhile (\<lambda>item. server_bind bind (fst item) = None) (store w))"
    by (simp add: serve_all_snd)
  from assms show "w' = w\<lparr>created := created w
                  @ map (\<lambda>item. \<lparr>server_address = fst item, dispatcher = snd item\<rparr>)
                      (takeWhile (\<lambda>item. server_bind bind (fst item) = None) (store w)),
                threads := threads w
                  @ run_threads sched
                      (map (\<lambda>item. \<lparr>server_address = fst item, dispatcher = snd item\<rparr>)
                        (takeWhile (\<lambda>item. server_bind bind (fst item) = None) (store w)))\<rparr>"
    unfolding start_servers_eq Let_def s by (auto split: option.splits if_splits)
  from assms have "(r = Inr ()) = (fst (serve_all bind (store w) []) = None)"
    unfolding start_servers_eq Let_def by (auto split: option.splits if_splits)
  then show "(r = Inr ()) = (\<forall>item \<in> set (store w). server_bind bind (fst item) = None)"
    by (simp add: serve_all_returns_iff)
qed

lemma start_servers_all:
  assumes "\<forall>item \<in> set (store w). server_bind bind (fst item) = None"
  shows "start_servers blocking env bind sched w
     = (if blocking \<and> (\<forall>i. env i = Slept) then None
        else Some (Inr (),
          w\<lparr>created := created w
                @ map (\<lambda>item. \<lparr>server_address = fst item, dispatcher = snd item\<rparr>) (store w),
            threads := threads w
                @ run_threads sched
                    (map (\<lambda>item. \<lparr>server_address = fst item, dispatcher = snd item\<rparr>) (store w))\<rparr>))"
  unfolding start_servers_eq Let_def serve_all_all [OF assms] by simp


lemma new_server_dispatcher:
  assumes "distinct (dict_keys reg)"
    and "s \<in> set (map (\<lambda>item. \<lparr>server_address = fst item, dispatcher = snd item\<rparr>) (takeWhile P reg))"
  shows "dict_get reg (server_address s) = Some (dispatcher s)"
proof -
  from assms(2) obtain item where "item \<in> set (takeWhile P reg)"
    and s: "s = \<lparr>server_address = fst item, dispatcher = snd item\<rparr>" by auto
  then have "item \<in> set reg" by (auto dest: set_takeWhileD)
  with assms(1) have "map_of reg (fst item) = Some (snd item)"
    by (simp add: dict_keys_def)
  with s show ?thesis by (simp add: dict_get_def)
qed

lemma takeWhile_all: "\<forall>x \<in> set xs. P x \<Longrightarrow> takeWhile P xs = xs"
  by (simp add: takeWhile_eq_all_conv)

lemma count_mk:
  assumes "distinct (dict_keys reg)"
  shows "length (filter (\<lambda>s. server_address s = ep)
           (map (\<lambda>item. \<lparr>server_address = fst item, dispatcher = snd item\<rparr>) reg))
         = (if ep \<in> set (dict_keys reg) then 1 else 0)"
proof -
  have d: "distinct (map fst reg)" using assms by (simp add: dict_keys_def)
  show ?thesis using count_distinct_keys [OF d, of ep]
    by (simp add: filter_map o_def dict_keys_def)
qed

section \<open>Registration\<close>

text \<open>
  C1. Two registrations for one endpoint with two different addresses should leave both
  address-to-callback bindings in the registry's mapping for that endpoint. They do not:
  each registration passes \<^verbatim>\<open>{(host, port): {_addr: f}}\<close> to \<^verbatim>\<open>dict.update\<close>, which
  replaces the endpoint's whole inner dictionary, so only the binding registered last is
  left. Evaluated here for one decoration with \<^verbatim>\<open>addresses=["/a", "/b"]\<close> and for two
  decorations with \<^verbatim>\<open>address="/a"\<close> and \<^verbatim>\<open>address="/b"\<close>, from the empty registry.
\<close>

theorem receive_same_endpoint_keeps_last_binding:
  "(case receive ''127.0.0.1'' 19994 None (Some [''/a'', ''/b'']) of
      Inl e \<Rightarrow> None
    | Inr dec \<Rightarrow> Some (store (snd (dec (UserFn (0::nat)) init_world))))
     = Some [((''127.0.0.1'', 19994), [(''/b'', UserFn 0)])]
   \<and> store (snd (decorator ''127.0.0.1'' 19994 (Some ''/b'') None (UserFn (1::nat))
        (snd (decorator ''127.0.0.1'' 19994 (Some ''/a'') None (UserFn 0) init_world))))
     = [((''127.0.0.1'', 19994), [(''/b'', UserFn 1)])]"
  by (simp add: receive_def decorator_def consolidate_def servers_def init_world_def)

text \<open>
  C9. \<^verbatim>\<open>receive(host, port)\<close> with neither \<^verbatim>\<open>address\<close> nor \<^verbatim>\<open>addresses\<close> raises
  \<^verbatim>\<open>ValueError\<close> and produces no decorator; with at least one of them it raises nothing
  and returns the decorator.
\<close>

theorem receive_needs_an_address:
  "receive host port None None = Inl (ValueError ''Must specify an address.'')
   \<and> (address \<noteq> None \<or> addresses \<noteq> None \<longrightarrow>
        receive host port address addresses = Inr (decorator host port address addresses))"
  by (simp add: receive_def)

theorem receive_needs_an_address_witness:
  "receive ''127.0.0.1'' 19994 None None
     = (Inl (ValueError ''Must specify an address.'')
          :: error + (nat callable \<Rightarrow> nat world \<Rightarrow> nat callable \<times> nat world))
   \<and> Some ''/some/addr'' \<noteq> None
   \<and> (receive ''127.0.0.1'' 19994 (Some ''/some/addr'') None
        :: error + (nat callable \<Rightarrow> nat world \<Rightarrow> nat callable \<times> nat world))
       = Inr (decorator ''127.0.0.1'' 19994 (Some ''/some/addr'') None)"
  using receive_needs_an_address [of "''127.0.0.1''" 19994 "Some ''/some/addr''" None]
  by simp

text \<open>
  C10. The wrapper that \<^verbatim>\<open>receive\<close>'s decorator returns for a function \<open>f\<close>, called
  with an address only, calls \<open>f\<close> with that address and the message \<^verbatim>\<open>None\<close>; called
  with a message it calls \<open>f\<close> with the address and that message; either way the result
  is \<open>f\<close>'s, unchanged. For a function the user wrote, that is what the function itself
  does on those two arguments.
\<close>

theorem wrapper_calls_original:
  assumes "receive host port address addresses = Inr dec"
    and "dec f w = (g, w')"
  shows "call beh g addr None = call beh f addr (Some None)
   \<and> call beh g addr (Some message) = call beh f addr (Some message)
   \<and> (\<forall>u. f = UserFn u \<longrightarrow>
        call beh g addr None = beh u addr (Some None)
        \<and> call beh g addr (Some message) = beh u addr (Some message))"
proof -
  from assms(1) have "dec = decorator host port address addresses"
    by (simp add: receive_def split: if_splits)
  with assms(2) have "g = ReceiveWrapper f" by (simp add: decorator_def)
  then show ?thesis by simp
qed

theorem wrapper_calls_original_witness:
  "(receive ''127.0.0.1'' 19994 (Some ''/some/addr'') None
      :: error + (nat callable \<Rightarrow> nat world \<Rightarrow> nat callable \<times> nat world))
     = Inr (decorator ''127.0.0.1'' 19994 (Some ''/some/addr'') None)
   \<and> call (\<lambda>u addr marg. (u, addr, marg))
        (fst (decorator ''127.0.0.1'' 19994 (Some ''/some/addr'') None (UserFn (0::nat)) init_world))
        ''/some/addr'' None
       = (0, ''/some/addr'', Some None)
   \<and> call (\<lambda>u addr marg. (u, addr, marg))
        (fst (decorator ''127.0.0.1'' 19994 (Some ''/some/addr'') None (UserFn (0::nat)) init_world))
        ''/some/addr'' (Some (Some (OInt 5)))
       = (0, ''/some/addr'', Some (Some (OInt 5)))"
proof -
  let ?dec = "decorator ''127.0.0.1'' 19994 (Some ''/some/addr'') None
      :: nat callable \<Rightarrow> nat world \<Rightarrow> nat callable \<times> nat world"
  have r: "receive ''127.0.0.1'' 19994 (Some ''/some/addr'') None = Inr ?dec"
    by (simp add: receive_def)
  have d: "?dec (UserFn 0) init_world = (fst (?dec (UserFn 0) init_world), snd (?dec (UserFn 0) init_world))"
    by simp
  from wrapper_calls_original [OF r d, of "\<lambda>u addr marg. (u, addr, marg)" "''/some/addr''" "Some (OInt 5)"]
  have "call (\<lambda>u addr marg. (u, addr, marg)) (fst (?dec (UserFn 0) init_world)) ''/some/addr'' None
       = (0, ''/some/addr'', Some None)"
    and "call (\<lambda>u addr marg. (u, addr, marg)) (fst (?dec (UserFn 0) init_world)) ''/some/addr''
        (Some (Some (OInt 5))) = (0, ''/some/addr'', Some (Some (OInt 5)))"
    by simp_all
  with r show ?thesis by (intro conjI)
qed

section \<open>The registry accessor is read-only without an update\<close>

text \<open>
  C7. \<^verbatim>\<open>__servers()\<close> without an update returns the stored mapping and leaves every
  part of the state as it was; a call changes the mapping only when it passes an update;
  what a call stored is what the next read returns; and neither \<^verbatim>\<open>start_servers\<close>,
  however it ends, nor a wrapped sender changes the mapping.
\<close>

theorem servers_read_leaves_store:
  "servers None w = (store w, w)
   \<and> fst (servers update w) = store (snd (servers update w))
   \<and> (store (snd (servers update w)) \<noteq> store w \<longrightarrow> update \<noteq> None)
   \<and> fst (servers None (snd (servers (Some u) w))) = dict_update (store w) u
   \<and> (start_servers blocking env bind sched w = Some (r, w') \<longrightarrow> store w' = store w)
   \<and> store (snd (send host port f client net args w)) = store w"
proof -
  have "start_servers blocking env bind sched w = Some (r, w') \<Longrightarrow> store w' = store w"
    using start_servers_Some(1) [of blocking env bind sched w r w'] by simp
  moreover have "store (snd (send host port f client net args w)) = store w"
    by (simp add: send_def Let_def split: option.splits)
  ultimately show ?thesis
    by (auto simp: servers_def Let_def split: option.splits)
qed

theorem servers_read_leaves_store_witness:
  "servers None two_endpoints = (store two_endpoints, two_endpoints)
   \<and> store (snd (servers (Some [((''127.0.0.1'', 19994), [(''/b'', UserFn 3)])]) two_endpoints))
       \<noteq> store two_endpoints
   \<and> Some [((''127.0.0.1'', 19994), [(''/b'', UserFn (3::nat))])] \<noteq> None
   \<and> (\<exists>w'. start_servers True (interrupt_at 1) accept prompt two_endpoints = Some (Inr (), w')
         \<and> store w' = store two_endpoints)"
proof -
  have a: "\<forall>item \<in> set (store two_endpoints). server_bind accept (fst item) = None"
    by (simp add: two_endpoints_def init_world_def server_bind_def accept_def)
  have "\<not> (\<forall>i. interrupt_at 1 i = Slept)"
    by (auto simp: interrupt_at_def intro: exI [of _ 1])
  with start_servers_all [OF a, of True "interrupt_at 1" prompt]
  obtain w' where s: "start_servers True (interrupt_at 1) accept prompt two_endpoints = Some (Inr (), w')"
    by simp
  from servers_read_leaves_store [of two_endpoints
      "Some [((''127.0.0.1'', 19994), [(''/b'', UserFn 3)])]" "[]" True "interrupt_at 1"
      accept prompt "Inr ()" w' "''127.0.0.1''" 19994 send_something resolves reachable "''Hey''"] s
  have "servers None two_endpoints = (store two_endpoints, two_endpoints)"
    and "store w' = store two_endpoints" by simp_all
  moreover have "store (snd (servers (Some [((''127.0.0.1'', 19994), [(''/b'', UserFn 3)])]) two_endpoints))
       \<noteq> store two_endpoints"
    by (simp add: servers_def two_endpoints_def init_world_def)
  ultimately show ?thesis using s by auto
qed

section \<open>Starting the servers\<close>

text \<open>
  C2, as amended. For every registry (a dictionary: no key twice) whose every server
  construction succeeds, \<^verbatim>\<open>start_servers\<close> returns having constructed one server per
  key, in the registry's order: every endpoint of the registry gets exactly one server,
  every other endpoint none, and a server's dispatcher holds exactly the bindings the
  registry has for the server's endpoint. It has started one daemon thread per key, each
  serving one of these servers: the \<open>k\<close>-th thread serves the server the loop variable
  holds when the thread reads it, and when every thread reads it before the next
  assignment, each serves the server of its own key, so that every endpoint has exactly
  one thread. With \<^verbatim>\<open>blocking=True\<close> the state on return is the same.
\<close>

theorem start_servers_one_server_per_endpoint:
  assumes "distinct (dict_keys (store w))"
    and "\<forall>item \<in> set (store w). server_bind bind (fst item) = None"
  shows "\<exists>w'. start_servers False env bind sched w = Some (Inr (), w')
     \<and> (\<forall>r w''. start_servers True env bind sched w = Some (r, w'') \<longrightarrow> r = Inr () \<and> w'' = w')
     \<and> created w'
         = created w @ map (\<lambda>item. \<lparr>server_address = fst item, dispatcher = snd item\<rparr>) (store w)
     \<and> (\<forall>ep. length (filter (\<lambda>s. server_address s = ep) (drop (length (created w)) (created w')))
            = (if ep \<in> set (dict_keys (store w)) then 1 else 0))
     \<and> (\<forall>s \<in> set (drop (length (created w)) (created w')).
            dict_get (store w) (server_address s) = Some (dispatcher s))
     \<and> length (drop (length (threads w)) (threads w')) = length (dict_keys (store w))
     \<and> (\<forall>t \<in> set (drop (length (threads w)) (threads w')).
            daemon t \<and> target t \<in> set (drop (length (created w)) (created w')))
     \<and> (\<forall>k < length (store w).
            target (drop (length (threads w)) (threads w') ! k)
              = drop (length (created w)) (created w') ! min (k + sched k) (length (store w) - 1))
     \<and> ((\<forall>k. sched k = 0) \<longrightarrow>
            map target (drop (length (threads w)) (threads w'))
              = drop (length (created w)) (created w')
            \<and> (\<forall>ep. length (filter (\<lambda>t. server_address (target t) = ep)
                                (drop (length (threads w)) (threads w')))
                   = (if ep \<in> set (dict_keys (store w)) then 1 else 0)))"
proof -
  let ?new = "map (\<lambda>item. \<lparr>server_address = fst item, dispatcher = snd item\<rparr>) (store w)"
  let ?w' = "w\<lparr>created := created w @ ?new, threads := threads w @ run_threads sched ?new\<rparr>"
  have c: "drop (length (created w)) (created ?w') = ?new" by simp
  have t: "drop (length (threads w)) (threads ?w') = run_threads sched ?new" by simp
  have tk: "takeWhile (\<lambda>item. server_bind bind (fst item) = None) (store w) = store w"
    using assms(2) by (rule takeWhile_all)
  have 1: "start_servers False env bind sched w = Some (Inr (), ?w')"
    by (simp add: start_servers_all [OF assms(2)])
  have 2: "\<forall>r w''. start_servers True env bind sched w = Some (r, w'') \<longrightarrow> r = Inr () \<and> w'' = ?w'"
    by (simp add: start_servers_all [OF assms(2)])
  have 3: "created ?w' = created w @ ?new" by simp
  have 4: "\<forall>ep. length (filter (\<lambda>s. server_address s = ep) (drop (length (created w)) (created ?w')))
            = (if ep \<in> set (dict_keys (store w)) then 1 else 0)"
    unfolding c using count_mk [OF assms(1)] by blast
  have 5: "\<forall>s \<in> set (drop (length (created w)) (created ?w')).
            dict_get (store w) (server_address s) = Some (dispatcher s)"
    unfolding c
    using new_server_dispatcher [OF assms(1), of _ "\<lambda>item. server_bind bind (fst item) = None"]
    unfolding tk by blast
  have 6: "length (drop (length (threads w)) (threads ?w')) = length (dict_keys (store w))"
    unfolding t by (simp add: length_run_threads dict_keys_def)
  have 7: "\<forall>t \<in> set (drop (length (threads w)) (threads ?w')).
            daemon t \<and> target t \<in> set (drop (length (created w)) (created ?w'))"
    unfolding t c using daemon_run_threads target_in_new by blast
  have 8: "\<forall>k < length (store w).
            target (drop (length (threads w)) (threads ?w') ! k)
              = drop (length (created w)) (created ?w') ! min (k + sched k) (length (store w) - 1)"
    unfolding t c using target_run_threads [of _ ?new sched] by simp
  have 9: "(\<forall>k. sched k = 0) \<longrightarrow>
            map target (drop (length (threads w)) (threads ?w'))
              = drop (length (created w)) (created ?w')
            \<and> (\<forall>ep. length (filter (\<lambda>t. server_address (target t) = ep)
                                (drop (length (threads w)) (threads ?w')))
                   = (if ep \<in> set (dict_keys (store w)) then 1 else 0))"
  proof (intro impI conjI allI)
    assume p: "\<forall>k. sched k = 0"
    then have m: "map target (run_threads sched ?new) = ?new" by (rule run_threads_prompt)
    show "map target (drop (length (threads w)) (threads ?w'))
              = drop (length (created w)) (created ?w')"
      unfolding t c by (rule m)
    fix ep
    have "length (filter (\<lambda>t. server_address (target t) = ep) (run_threads sched ?new))
        = length (filter (\<lambda>s. server_address s = ep) (map target (run_threads sched ?new)))"
      by (simp add: filter_map o_def)
    also have "\<dots> = (if ep \<in> set (dict_keys (store w)) then 1 else 0)"
      unfolding m using count_mk [OF assms(1)] by blast
    finally show "length (filter (\<lambda>t. server_address (target t) = ep)
                                (drop (length (threads w)) (threads ?w')))
                   = (if ep \<in> set (dict_keys (store w)) then 1 else 0)"
      unfolding t .
  qed
  show ?thesis
    by (rule exI [of _ ?w']) (intro conjI 1 2 3 4 5 6 7 8 9)
qed

theorem start_servers_one_server_per_endpoint_witness:
  "distinct (dict_keys (store two_endpoints))
   \<and> map (\<lambda>item. server_bind accept (fst item)) (store two_endpoints) = [None, None]
   \<and> (\<exists>w'. start_servers False (interrupt_at 1) accept prompt two_endpoints = Some (Inr (), w')
        \<and> map server_address (created w') = [(''127.0.0.1'', 19994), (''0.0.0.0'', 9000)]
        \<and> map dispatcher (created w')
            = [[(''/some/addr'', UserFn 0)], [(''/x'', UserFn 1), (''/y'', UserFn 2)]]
        \<and> map target (threads w') = created w')"
proof -
  have h: "distinct (dict_keys (store two_endpoints))"
    by (simp add: two_endpoints_def dict_keys_def init_world_def)
  have a: "\<forall>item \<in> set (store two_endpoints). server_bind accept (fst item) = None"
    by (simp add: two_endpoints_def init_world_def server_bind_def accept_def)
  have p: "\<forall>k. prompt k = 0" by (simp add: prompt_def)
  from start_servers_one_server_per_endpoint [OF h a, of "interrupt_at 1" prompt] p
  obtain w' where "start_servers False (interrupt_at 1) accept prompt two_endpoints = Some (Inr (), w')"
    and "created w' = created two_endpoints
          @ map (\<lambda>item. \<lparr>server_address = fst item, dispatcher = snd item\<rparr>) (store two_endpoints)"
    and "map target (drop (length (threads two_endpoints)) (threads w'))
          = drop (length (created two_endpoints)) (created w')"
    by blast
  then have r: "start_servers False (interrupt_at 1) accept prompt two_endpoints = Some (Inr (), w')
        \<and> map server_address (created w') = [(''127.0.0.1'', 19994), (''0.0.0.0'', 9000)]
        \<and> map dispatcher (created w')
            = [[(''/some/addr'', UserFn 0)], [(''/x'', UserFn 1), (''/y'', UserFn 2)]]
        \<and> map target (threads w') = created w'"
    by (simp add: two_endpoints_def init_world_def)
  have e: "\<exists>w'. start_servers False (interrupt_at 1) accept prompt two_endpoints = Some (Inr (), w')
        \<and> map server_address (created w') = [(''127.0.0.1'', 19994), (''0.0.0.0'', 9000)]
        \<and> map dispatcher (created w')
            = [[(''/some/addr'', UserFn 0)], [(''/x'', UserFn 1), (''/y'', UserFn 2)]]
        \<and> map target (threads w') = created w'"
    using r by (rule exI [of _ w'])
  have a': "map (\<lambda>item. server_bind accept (fst item)) (store two_endpoints) = [None, None]"
    by (simp add: two_endpoints_def init_world_def server_bind_def accept_def)
  from h a' e show ?thesis by (intro conjI)
qed

text \<open>
  C2 as stated fails for a registry with a port no socket can have: the second
  construction raises \<^verbatim>\<open>OverflowError\<close>, the exception leaves \<^verbatim>\<open>start_servers\<close>, and
  the third endpoint, a key of the registry, gets no server. It also fails for the threads
  when a thread reads the loop variable one assignment late: both threads then serve the
  second server and none serves the first.
\<close>

theorem start_servers_one_server_per_endpoint_counterexample:
  "distinct (dict_keys (store bad_port))
   \<and> start_servers False (interrupt_at 0) accept prompt bad_port
       = Some (Inl (OverflowError ''bind(): port must be 0-65535.''),
           bad_port\<lparr>created :=
                      [\<lparr>server_address = (''127.0.0.1'', 19994), dispatcher = [(''/a'', UserFn 0)]\<rparr>],
                    threads :=
                      [\<lparr>target = \<lparr>server_address = (''127.0.0.1'', 19994),
                                  dispatcher = [(''/a'', UserFn 0)]\<rparr>,
                        daemon = True\<rparr>]\<rparr>)
   \<and> (''127.0.0.1'', 19995) \<in> set (dict_keys (store bad_port))
   \<and> distinct (dict_keys (store two_endpoints))
   \<and> start_servers False (interrupt_at 0) accept late two_endpoints
       = Some (Inr (),
           two_endpoints\<lparr>created :=
                      [\<lparr>server_address = (''127.0.0.1'', 19994),
                        dispatcher = [(''/some/addr'', UserFn 0)]\<rparr>,
                       \<lparr>server_address = (''0.0.0.0'', 9000),
                        dispatcher = [(''/x'', UserFn 1), (''/y'', UserFn 2)]\<rparr>],
                    threads :=
                      [\<lparr>target = \<lparr>server_address = (''0.0.0.0'', 9000),
                                  dispatcher = [(''/x'', UserFn 1), (''/y'', UserFn 2)]\<rparr>,
                        daemon = True\<rparr>,
                       \<lparr>target = \<lparr>server_address = (''0.0.0.0'', 9000),
                                  dispatcher = [(''/x'', UserFn 1), (''/y'', UserFn 2)]\<rparr>,
                        daemon = True\<rparr>]\<rparr>)"
  by (simp add: start_servers_def servers_def bad_port_def two_endpoints_def init_world_def
      dict_keys_def ThreadingOSCUDPServer_def server_bind_def accept_def Dispatcher_def
      dispatcher_map_def run_threads_def late_def prompt_def Let_def)




section \<open>The callback a decoration registers\<close>

text \<open>
  C8. \<^verbatim>\<open>receive\<close>'s decorator returns a wrapper, a new function object, but what it
  stores in the registry is the decorated function \<open>f\<close> itself: after a decoration
  with at least one address, the endpoint's bindings hold \<open>f\<close> at the last address,
  hold nothing but \<open>f\<close> (so never the wrapper) at any of the decoration's addresses, and
  \<^verbatim>\<open>start_servers\<close> maps exactly these bindings onto the dispatcher of every server it
  constructs for the endpoint, which is one server when \<^verbatim>\<open>start_servers\<close> returns.
\<close>

theorem decorator_registers_original:
  assumes "distinct (dict_keys (store w))"
    and "consolidate address addresses \<noteq> []"
    and "decorator host port address addresses f w = (g, w')"
    and "start_servers False env bind sched w' = Some (r, w'')"
  shows "g = ReceiveWrapper f \<and> g \<noteq> f
    \<and> (\<exists>binds. dict_get (store w') (host, port) = Some binds
          \<and> dict_get binds (last (consolidate address addresses)) = Some f
          \<and> (\<forall>a \<in> set (consolidate address addresses). \<forall>cb.
                dict_get binds a = Some cb \<longrightarrow> cb = f \<and> cb \<noteq> g)
          \<and> (r = Inr () \<longrightarrow>
                \<lparr>server_address = (host, port), dispatcher = binds\<rparr>
                  \<in> set (drop (length (created w')) (created w'')))
          \<and> (\<forall>s \<in> set (drop (length (created w')) (created w'')).
                server_address s = (host, port) \<longrightarrow> dispatcher s = binds))"
proof -
  let ?as = "consolidate address addresses"
  let ?binds = "[(last ?as, f)]"
  let ?ok = "\<lambda>item. server_bind bind (fst item) = None"
  let ?mk = "\<lambda>item. \<lparr>server_address = fst item, dispatcher = snd item\<rparr>"
  from assms(3) have g: "g = ReceiveWrapper f" and w': "w' = register_all (host, port) f ?as w"
    by (simp_all add: decorator_def)
  have ne: "g \<noteq> f" using g callable_neq_wrapper [of f] by simp
  have get: "dict_get (store w') (host, port) = Some ?binds"
    unfolding w' using assms(2) by (rule register_all_get)
  have dist: "distinct (dict_keys (store w'))"
    unfolding w' using assms(1) by (rule register_all_distinct)
  have new: "drop (length (created w')) (created w'') = map ?mk (takeWhile ?ok (store w'))"
    using start_servers_Some(1) [OF assms(4)] by simp
  have ex: "r = Inr () \<longrightarrow> \<lparr>server_address = (host, port), dispatcher = ?binds\<rparr>
                \<in> set (drop (length (created w')) (created w''))"
  proof
    assume "r = Inr ()"
    then have "\<forall>item \<in> set (store w'). ?ok item"
      using start_servers_Some(2) [OF assms(4)] by simp
    then have tk: "takeWhile ?ok (store w') = store w'" by (rule takeWhile_all)
    from get have "((host, port), ?binds) \<in> set (store w')"
      by (simp add: dict_get_def map_of_SomeD)
    then have "\<lparr>server_address = (host, port), dispatcher = ?binds\<rparr> \<in> set (map ?mk (store w'))"
      by force
    then show "\<lparr>server_address = (host, port), dispatcher = ?binds\<rparr>
                \<in> set (drop (length (created w')) (created w''))"
      unfolding new tk by simp
  qed
  have only: "\<forall>s \<in> set (drop (length (created w')) (created w'')).
                server_address s = (host, port) \<longrightarrow> dispatcher s = ?binds"
  proof (intro ballI impI)
    fix s assume s: "s \<in> set (drop (length (created w')) (created w''))"
      and a: "server_address s = (host, port)"
    from new_server_dispatcher [OF dist s [unfolded new]] a get
    show "dispatcher s = ?binds" by simp
  qed
  have cbs: "\<forall>a \<in> set ?as. \<forall>cb. dict_get ?binds a = Some cb \<longrightarrow> cb = f \<and> cb \<noteq> g"
    using ne by (auto simp: dict_get_def split: if_splits)
  have l: "dict_get ?binds (last ?as) = Some f" by (simp add: dict_get_def)
  from get l cbs ex only have "\<exists>binds. dict_get (store w') (host, port) = Some binds
          \<and> dict_get binds (last (consolidate address addresses)) = Some f
          \<and> (\<forall>a \<in> set (consolidate address addresses). \<forall>cb.
                dict_get binds a = Some cb \<longrightarrow> cb = f \<and> cb \<noteq> g)
          \<and> (r = Inr () \<longrightarrow>
                \<lparr>server_address = (host, port), dispatcher = binds\<rparr>
                  \<in> set (drop (length (created w')) (created w'')))
          \<and> (\<forall>s \<in> set (drop (length (created w')) (created w'')).
                server_address s = (host, port) \<longrightarrow> dispatcher s = binds)"
    by (intro exI [of _ ?binds] conjI)
  with g ne show ?thesis by (intro conjI)
qed

theorem decorator_registers_original_witness:
  "distinct (dict_keys (store two_endpoints))
   \<and> consolidate (Some ''/a'') (Some [''/b'']) \<noteq> []
   \<and> fst (decorator ''127.0.0.1'' 19994 (Some ''/a'') (Some [''/b'']) (UserFn 7) two_endpoints)
       = ReceiveWrapper (UserFn 7)
   \<and> dict_get
        (store (snd (decorator ''127.0.0.1'' 19994 (Some ''/a'') (Some [''/b'']) (UserFn 7)
                       two_endpoints)))
        (''127.0.0.1'', 19994)
       = Some [(''/b'', UserFn 7)]
   \<and> (\<exists>w''. start_servers False (interrupt_at 0) accept prompt
          (snd (decorator ''127.0.0.1'' 19994 (Some ''/a'') (Some [''/b'']) (UserFn 7) two_endpoints))
          = Some (Inr (), w'')
        \<and> \<lparr>server_address = (''127.0.0.1'', 19994), dispatcher = [(''/b'', UserFn 7)]\<rparr>
            \<in> set (created w''))"
proof -
  let ?d = "decorator ''127.0.0.1'' 19994 (Some ''/a'') (Some [''/b'']) (UserFn 7) two_endpoints"
  have h1: "distinct (dict_keys (store two_endpoints))"
    by (simp add: two_endpoints_def dict_keys_def init_world_def)
  have h2: "consolidate (Some ''/a'') (Some [''/b'']) \<noteq> []"
    by (simp add: consolidate_def)
  have h3: "?d = (fst ?d, snd ?d)" by simp
  have st: "store (snd ?d)
      = [((''127.0.0.1'', 19994), [(''/b'', UserFn 7)]),
         ((''0.0.0.0'', 9000), [(''/x'', UserFn 1), (''/y'', UserFn 2)])]"
    by (simp add: decorator_def consolidate_def servers_def two_endpoints_def init_world_def)
  have a: "\<forall>item \<in> set (store (snd ?d)). server_bind accept (fst item) = None"
    unfolding st by (simp add: server_bind_def accept_def)
  have c: "created (snd ?d) = []"
    by (simp add: decorator_def register_all_frame two_endpoints_def init_world_def)
  from start_servers_all [OF a, of False "interrupt_at 0" prompt]
  obtain w'' where h4: "start_servers False (interrupt_at 0) accept prompt (snd ?d) = Some (Inr (), w'')"
    by simp
  from decorator_registers_original [OF h1 h2 h3 h4]
  obtain binds where g: "fst ?d = ReceiveWrapper (UserFn 7)"
    and b: "dict_get (store (snd ?d)) (''127.0.0.1'', 19994) = Some binds"
    and m: "\<lparr>server_address = (''127.0.0.1'', 19994), dispatcher = binds\<rparr>
       \<in> set (drop (length (created (snd ?d))) (created w''))"
    by blast
  have get: "dict_get (store (snd ?d)) (''127.0.0.1'', 19994) = Some [(''/b'', UserFn 7)]"
    unfolding st by (simp add: dict_get_def)
  with b have binds: "binds = [(''/b'', UserFn 7)]" by simp
  from m have "\<lparr>server_address = (''127.0.0.1'', 19994), dispatcher = [(''/b'', UserFn 7)]\<rparr>
       \<in> set (created w'')"
    unfolding binds c by simp
  with h4 have e: "\<exists>w''. start_servers False (interrupt_at 0) accept prompt (snd ?d) = Some (Inr (), w'')
        \<and> \<lparr>server_address = (''127.0.0.1'', 19994), dispatcher = [(''/b'', UserFn 7)]\<rparr>
            \<in> set (created w'')"
    by blast
  from h1 h2 g get e show ?thesis by (intro conjI)
qed

section \<open>Sending\<close>

text \<open>
  C3, as amended. One call of a function wrapped with \<^verbatim>\<open>send(host, port)\<close> makes at
  most one call of \<^verbatim>\<open>send_message\<close> and never a second one: exactly one, to
  \<open>(host, port)\<close> and with the packet the function returned, when the client is
  constructed, whether that call returns or raises; none when the client constructor
  raises. Exactly one datagram is transmitted when neither raises, and none otherwise.
\<close>

theorem send_makes_one_attempt:
  "sent (snd (send host port f client net args w))
     = (case client (host, port) of
          Some e \<Rightarrow> sent w
        | None \<Rightarrow>
            sent w @ [\<lparr>dest = (host, port), payload = f args,
                       raised = net (host, port) (f args)\<rparr>])
   \<and> length (sent (snd (send host port f client net args w)))
       = length (sent w) + (if client (host, port) = None then 1 else 0)
   \<and> length (filter (\<lambda>a. raised a = None) (sent (snd (send host port f client net args w))))
       = length (filter (\<lambda>a. raised a = None) (sent w))
         + (if client (host, port) = None \<and> net (host, port) (f args) = None then 1 else 0)"
  by (simp add: send_def Let_def split: option.splits)

text \<open>
  C3 as stated, exactly one send attempt and exactly one datagram for every call, fails
  for a host that does not resolve, where \<^verbatim>\<open>send_message\<close> is never called, and on a
  network that refuses the datagram, where the one attempt transmits nothing.
\<close>

theorem send_makes_one_attempt_counterexample:
  "sent (snd (send ''osc.invalid'' 19994 send_something unresolvable reachable
                ''Hey this is something'' (init_world :: nat world)))
     = []
   \<and> filter (\<lambda>a. raised a = None)
        (sent (snd (send ''127.0.0.1'' 19994 send_something resolves unreachable
                      ''Hey this is something'' (init_world :: nat world))))
     = []"
  by (simp add: send_def unresolvable_def resolves_def unreachable_def init_world_def Let_def)

text \<open>
  C4, as amended. The wrapper returned by \<^verbatim>\<open>send(host, port)(f)\<close> computes the packet
  \<open>f args\<close> (and logs it) for every function and argument. When the client is
  constructed and \<^verbatim>\<open>send_message\<close> raises nothing, exactly that packet is sent as the
  OSC packet to \<open>(host, port)\<close> and the wrapper returns that same packet unchanged. When
  \<^verbatim>\<open>send_message\<close> raises, it was called with exactly that packet, the exception
  leaves the wrapper and no packet is returned; when the client constructor raises,
  \<^verbatim>\<open>send_message\<close> is not called, the exception leaves the wrapper and no packet is
  returned.
\<close>

theorem send_sends_and_returns_packet:
  "debug_log (snd (send host port f client net args w)) = debug_log w @ [(f args, (host, port))]
   \<and> (client (host, port) = None \<and> net (host, port) (f args) = None \<longrightarrow>
        fst (send host port f client net args w) = Inr (f args)
        \<and> sent (snd (send host port f client net args w))
            = sent w @ [\<lparr>dest = (host, port), payload = f args, raised = None\<rparr>])
   \<and> (\<forall>e. client (host, port) = None \<and> net (host, port) (f args) = Some e \<longrightarrow>
        fst (send host port f client net args w) = Inl e
        \<and> sent (snd (send host port f client net args w))
            = sent w @ [\<lparr>dest = (host, port), payload = f args, raised = Some e\<rparr>])
   \<and> (\<forall>e. client (host, port) = Some e \<longrightarrow>
        fst (send host port f client net args w) = Inl e
        \<and> sent (snd (send host port f client net args w)) = sent w)"
  by (simp add: send_def Let_def split: option.splits)

theorem send_sends_and_returns_packet_witness:
  "resolves (''127.0.0.1'', 19994) = None
   \<and> reachable (''127.0.0.1'', 19994) (send_something ''Hey this is something'') = None
   \<and> send ''127.0.0.1'' 19994 send_something resolves reachable ''Hey this is something''
        (init_world :: nat world)
      = (Inr (''/some/addr'', Some (OStr ''Hey this is something'')),
         init_world\<lparr>debug_log :=
                      [((''/some/addr'', Some (OStr ''Hey this is something'')),
                        (''127.0.0.1'', 19994))],
                    sent :=
                      [\<lparr>dest = (''127.0.0.1'', 19994),
                        payload = (''/some/addr'', Some (OStr ''Hey this is something'')),
                        raised = None\<rparr>]\<rparr>)
   \<and> unreachable (''127.0.0.1'', 19994) (send_something ''Hey this is something'')
       = Some (OSError ''Network is unreachable'')
   \<and> fst (send ''127.0.0.1'' 19994 send_something resolves unreachable ''Hey this is something''
             (init_world :: nat world))
       = Inl (OSError ''Network is unreachable'')
   \<and> unresolvable (''osc.invalid'', 19994) = Some (OSError ''Name or service not known'')
   \<and> fst (send ''osc.invalid'' 19994 send_something unresolvable reachable
             ''Hey this is something'' (init_world :: nat world))
       = Inl (OSError ''Name or service not known'')"
proof -
  note ok = send_sends_and_returns_packet [of "''127.0.0.1''" 19994 send_something
      resolves reachable "''Hey this is something''" "init_world :: nat world"]
  note lost = send_sends_and_returns_packet [of "''127.0.0.1''" 19994 send_something
      resolves unreachable "''Hey this is something''" "init_world :: nat world"]
  note nohost = send_sends_and_returns_packet [of "''osc.invalid''" 19994 send_something
      unresolvable reachable "''Hey this is something''" "init_world :: nat world"]
  have r: "resolves (''127.0.0.1'', 19994) = None" by (simp add: resolves_def)
  have n: "reachable (''127.0.0.1'', 19994) (send_something ''Hey this is something'') = None"
    by (simp add: reachable_def)
  have u: "unreachable (''127.0.0.1'', 19994) (send_something ''Hey this is something'')
       = Some (OSError ''Network is unreachable'')" by (simp add: unreachable_def)
  have v: "unresolvable (''osc.invalid'', 19994) = Some (OSError ''Name or service not known'')"
    by (simp add: unresolvable_def)
  let ?s = "send ''127.0.0.1'' 19994 send_something resolves reachable ''Hey this is something''
        (init_world :: nat world)"
  from ok r n have "fst ?s = Inr (send_something ''Hey this is something'')"
    and "sent (snd ?s) = sent (init_world :: nat world)
            @ [\<lparr>dest = (''127.0.0.1'', 19994), payload = send_something ''Hey this is something'',
                 raised = None\<rparr>]"
    and "debug_log (snd ?s) = debug_log (init_world :: nat world)
            @ [(send_something ''Hey this is something'', (''127.0.0.1'', 19994))]"
    by simp_all
  moreover have "store (snd ?s) = [] \<and> created (snd ?s) = [] \<and> threads (snd ?s) = []"
    by (simp add: send_def Let_def resolves_def reachable_def init_world_def)
  ultimately have 1: "?s
      = (Inr (''/some/addr'', Some (OStr ''Hey this is something'')),
         init_world\<lparr>debug_log :=
                      [((''/some/addr'', Some (OStr ''Hey this is something'')),
                        (''127.0.0.1'', 19994))],
                    sent :=
                      [\<lparr>dest = (''127.0.0.1'', 19994),
                        payload = (''/some/addr'', Some (OStr ''Hey this is something'')),
                        raised = None\<rparr>]\<rparr>)"
    by (simp add: prod_eq_iff send_something_def init_world_def)
  from lost r u have 2: "fst (send ''127.0.0.1'' 19994 send_something resolves unreachable
      ''Hey this is something'' (init_world :: nat world)) = Inl (OSError ''Network is unreachable'')"
    by simp
  from nohost v have 3: "fst (send ''osc.invalid'' 19994 send_something unresolvable reachable
             ''Hey this is something'' (init_world :: nat world))
       = Inl (OSError ''Name or service not known'')"
    by simp
  from r n 1 u 2 v 3 show ?thesis by (intro conjI)
qed

text \<open>
  C4 as stated, that the wrapper returns the packet for every function and argument,
  fails where the send raises: the sender of \<^verbatim>\<open>test/test.py\<close> on a network that
  refuses the datagram ends with the exception, not with the packet.
\<close>

theorem send_returns_packet_counterexample:
  "fst (send ''127.0.0.1'' 19994 send_something resolves unreachable ''Hey this is something''
          (init_world :: nat world))
     = Inl (OSError ''Network is unreachable'')
   \<and> fst (send ''127.0.0.1'' 19994 send_something resolves unreachable ''Hey this is something''
          (init_world :: nat world))
     \<noteq> Inr (send_something ''Hey this is something'')"
  by (simp add: send_def resolves_def unreachable_def Let_def)

end
